theory Spec2Isabelle
  imports Main
begin

section \<open>Data model (the Order and Menu schemas)\<close>

text \<open>
  Documents are records with the fields of the mongoose schemas. JavaScript numbers that
  hold amounts, prices, quantities and stock counts are integers here; timestamps
  (\<open>Date.now()\<close>, \<open>new Date()\<close>) are milliseconds as naturals; ObjectIds are naturals.
  The fields \<open>status\<close> and \<open>paymentStatus\<close> are the schema's string enums.
\<close>

datatype order_status = PendingPayment | Active | Scanned | Delivered | Cancelled

datatype payment_status = Pending | Completed | Failed

fun status_string :: "order_status \<Rightarrow> string" where
  "status_string PendingPayment = ''pending_payment''"
| "status_string Active = ''active''"
| "status_string Scanned = ''scanned''"
| "status_string Delivered = ''delivered''"
| "status_string Cancelled = ''cancelled''"

record order_item =
  menuItem :: nat
  oi_itemName :: string
  quantity :: int
  oi_price :: int

record Order =
  studentId :: nat
  items :: "order_item list"
  totalAmount :: int
  razorpayOrderId :: string
  paymentStatus :: payment_status
  qrCodeData :: string
  status :: order_status
  scannedAt :: "nat option"
  deliveredAt :: "nat option"
  createdAt :: nat

record Menu =
  itemName :: string
  price :: int
  stockCount :: int
  imageURL :: string
  category :: string
  isAvailable :: bool
  description :: string
  m_createdAt :: nat
  updatedAt :: nat

text \<open>
  The database. The orders collection is a list in insertion order and a document's
  \<open>_id\<close> is its position: ObjectIds are unique and no route deletes an order. The menu
  collection is a map from \<open>_id\<close> to document (the menu routes add and delete items).
  Ids in requests are well-formed ObjectIds, and the store itself does not fail: the
  only exception modelled is the validation error of \<open>create\<close>.
\<close>

record state =
  orders :: "Order list"
  menus :: "nat \<rightharpoonup> Menu"

text \<open>
  What a request reads from outside the database: the clock, the eight random bytes
  in hex that \<open>crypto.randomBytes(8).toString('hex')\<close> returns, and what the payment
  gateway does at checkout (the client was never initialised, \<open>orders.create\<close> throws,
  or it returns an order id).
\<close>

datatype razorpay_env = NotInitialised | CreateThrows | CreateReturns string

record env =
  now :: nat
  randomHex :: string
  razorpay :: razorpay_env

text \<open>
  The error responses of the order routes, with their HTTP status and message. The 500
  response of a failed validation carries mongoose's message, which starts as below.
\<close>

datatype error =
    ProvideItems
  | MenuItemNotFound
  | LowStock string
  | ValidationError
  | PaymentVerificationFailed
  | OrderNotFound
  | InvalidQRCode
  | OrderIs order_status
  | MustScanBeforeDelivery
  | CannotCancel

fun http_status :: "error \<Rightarrow> nat" where
  "http_status ProvideItems = 400"
| "http_status MenuItemNotFound = 404"
| "http_status (LowStock n) = 400"
| "http_status ValidationError = 500"
| "http_status PaymentVerificationFailed = 400"
| "http_status OrderNotFound = 404"
| "http_status InvalidQRCode = 404"
| "http_status (OrderIs s) = 400"
| "http_status MustScanBeforeDelivery = 400"
| "http_status CannotCancel = 400"

fun message :: "error \<Rightarrow> string" where
  "message ProvideItems = ''Please provide items''"
| "message MenuItemNotFound = ''Menu item not found''"
| "message (LowStock n) = ''Low stock for '' @ n"
| "message ValidationError = ''Order validation failed''"
| "message PaymentVerificationFailed = ''Payment verification failed''"
| "message OrderNotFound = ''Order not found''"
| "message InvalidQRCode = ''Invalid QR code''"
| "message (OrderIs s) = ''Order is '' @ status_string s"
| "message MustScanBeforeDelivery = ''Must scan before delivery''"
| "message CannotCancel = ''Cannot cancel an order in progress or delivered''"

section \<open>Template strings\<close>

definition digit_char :: "nat \<Rightarrow> char" where
  "digit_char d = ''0123456789'' ! d"

function string_of_nat :: "nat \<Rightarrow> string" where
  "string_of_nat n =
     (if n < 10 then [digit_char n] else string_of_nat (n div 10) @ [digit_char (n mod 10)])"
  by pat_completeness auto
termination
  by (relation "measure id") auto

declare string_of_nat.simps [simp del]

text \<open>\<open>`ORD-${timestamp}-${randomString}`\<close> and \<open>`mock_order_${Date.now()}`\<close>.\<close>

definition qr_token :: "nat \<Rightarrow> string \<Rightarrow> string" where
  "qr_token timestamp randomString = ''ORD-'' @ string_of_nat timestamp @ ''-'' @ randomString"

definition mock_order_id :: "nat \<Rightarrow> string" where
  "mock_order_id t = ''mock_order_'' @ string_of_nat t"

section \<open>Schema hooks and store operations\<close>

text \<open>
  \<open>orderSchema.pre('save')\<close>: the QR code is generated when the document is saved with
  status \<open>active\<close> and a falsy (empty) \<open>qrCodeData\<close>.
\<close>

definition order_pre_save :: "env \<Rightarrow> Order \<Rightarrow> Order" where
  "order_pre_save e this =
     (if status this = Active \<and> qrCodeData this = []
      then this\<lparr>qrCodeData := qr_token (now e) (randomHex e)\<rparr>
      else this)"

text \<open>
  The two \<open>menuSchema.pre('save')\<close> hooks. They run on \<open>save\<close> and \<open>create\<close> only;
  \<open>findByIdAndUpdate\<close> does not run them.
\<close>

definition menu_pre_save :: "env \<Rightarrow> Menu \<Rightarrow> Menu" where
  "menu_pre_save e this = this\<lparr>updatedAt := now e, isAvailable := (0 < stockCount this)\<rparr>"

definition menu_categories :: "string list" where
  "menu_categories = [''breakfast'', ''lunch'', ''snacks'', ''beverages'', ''dinner'', ''desserts'']"

definition menu_valid :: "Menu \<Rightarrow> bool" where
  "menu_valid m =
     (itemName m \<noteq> [] \<and> 0 \<le> price m \<and> 0 \<le> stockCount m \<and>
      category m \<in> set menu_categories)"

text \<open>\<open>Menu.create\<close> under a fresh \<open>_id\<close>: the schema validators, then the save hooks.\<close>

definition Menu_create :: "env \<Rightarrow> nat \<Rightarrow> Menu \<Rightarrow> state \<Rightarrow> error + state" where
  "Menu_create e k m st =
     (if menu_valid m then Inr (st\<lparr>menus := (menus st)(k \<mapsto> menu_pre_save e m)\<rparr>)
      else Inl ValidationError)"

definition Menu_findById :: "state \<Rightarrow> nat \<Rightarrow> Menu option" where
  "Menu_findById st k = menus st k"

text \<open>
  \<open>Menu.findByIdAndUpdate(id, { $inc: { stockCount: d } })\<close>: an atomic increment with
  no validators and no hooks; nothing happens when the id matches no document.
\<close>

definition Menu_inc_stockCount :: "state \<Rightarrow> nat \<Rightarrow> int \<Rightarrow> state" where
  "Menu_inc_stockCount st k d =
     (case menus st k of
        None \<Rightarrow> st
      | Some m \<Rightarrow> st\<lparr>menus := (menus st)(k \<mapsto> m\<lparr>stockCount := stockCount m + d\<rparr>)\<rparr>)"

definition Order_findById :: "state \<Rightarrow> nat \<Rightarrow> Order option" where
  "Order_findById st i = (if i < length (orders st) then Some (orders st ! i) else None)"

text \<open>
  \<open>Order.findOne(filter)\<close> with no sort: the first matching document in the
  collection's natural (insertion) order, as its position.
\<close>

fun findOne_index :: "('a \<Rightarrow> bool) \<Rightarrow> 'a list \<Rightarrow> nat option" where
  "findOne_index P [] = None"
| "findOne_index P (x # xs) = (if P x then Some 0 else map_option Suc (findOne_index P xs))"

definition Order_findOne :: "state \<Rightarrow> (Order \<Rightarrow> bool) \<Rightarrow> nat option" where
  "Order_findOne st P = findOne_index P (orders st)"

text \<open>
  \<open>order.save()\<close> of the document at position \<open>i\<close>: the hook, then the write. The
  routes assign only values of the schema's enums and dates to a document that passed
  the validators when it was created, so the validation of \<open>save\<close> has no failing
  branch.
\<close>

definition Order_save :: "env \<Rightarrow> state \<Rightarrow> nat \<Rightarrow> Order \<Rightarrow> state" where
  "Order_save e st i doc = st\<lparr>orders := (orders st)[i := order_pre_save e doc]\<rparr>"

text \<open>
  The validators of the order schema that \<open>Order.create\<close> runs: \<open>itemName\<close> is required
  (an empty string fails), \<open>quantity\<close> has \<open>min: 1\<close>, \<open>totalAmount\<close> has \<open>min: 0\<close>.
  The other required paths (\<open>studentId\<close>, \<open>menuItem\<close>, \<open>price\<close>) are always given by
  the checkout route.
\<close>

definition order_item_valid :: "order_item \<Rightarrow> bool" where
  "order_item_valid i = (oi_itemName i \<noteq> [] \<and> 1 \<le> quantity i)"

definition order_valid :: "Order \<Rightarrow> bool" where
  "order_valid doc = (list_all order_item_valid (items doc) \<and> 0 \<le> totalAmount doc)"

definition Order_create :: "env \<Rightarrow> state \<Rightarrow> Order \<Rightarrow> error + state" where
  "Order_create e st doc =
     (if order_valid doc then Inr (st\<lparr>orders := orders st @ [order_pre_save e doc]\<rparr>)
      else Inl ValidationError)"

section \<open>The order routes\<close>

subsection \<open>POST /api/orders/checkout\<close>

record req_item =
  req_menuItem :: nat
  req_quantity :: int

text \<open>The \<open>for (let item of items)\<close> loop, with its two early returns.\<close>

fun checkout_loop ::
  "state \<Rightarrow> req_item list \<Rightarrow> int \<Rightarrow> order_item list \<Rightarrow> error + (int \<times> order_item list)" where
  "checkout_loop st [] tot orderItems = Inr (tot, orderItems)"
| "checkout_loop st (item # rest) tot orderItems =
     (case Menu_findById st (req_menuItem item) of
        None \<Rightarrow> Inl MenuItemNotFound
      | Some menuItem' \<Rightarrow>
          if stockCount menuItem' < req_quantity item then Inl (LowStock (itemName menuItem'))
          else checkout_loop st rest
                 (tot + price menuItem' * req_quantity item)
                 (orderItems @
                   [\<lparr>menuItem = req_menuItem item, oi_itemName = itemName menuItem',
                     quantity = req_quantity item, oi_price = price menuItem'\<rparr>]))"

text \<open>The gateway order id: the gateway's own, or the mock id when there is none.\<close>

definition checkout_razorpayOrderId :: "env \<Rightarrow> string" where
  "checkout_razorpayOrderId e =
     (case razorpay e of
        CreateReturns rid \<Rightarrow> rid
      | CreateThrows \<Rightarrow> mock_order_id (now e)
      | NotInitialised \<Rightarrow> mock_order_id (now e))"

record checkout_response =
  r_razorpayOrderId :: string
  r_orderId :: nat
  r_amount :: int
  r_data :: Order

definition checkout :: "env \<Rightarrow> nat \<Rightarrow> req_item list \<Rightarrow> state \<Rightarrow> error + (state \<times> checkout_response)" where
  "checkout e user reqItems st =
     (if reqItems = [] then Inl ProvideItems
      else case checkout_loop st reqItems 0 [] of
        Inl err \<Rightarrow> Inl err
      | Inr (tot, orderItems) \<Rightarrow>
          let rid = checkout_razorpayOrderId e;
              razorpayAmount = tot * 100;
              doc = \<lparr>studentId = user, items = orderItems, totalAmount = tot,
                     razorpayOrderId = rid, paymentStatus = Pending, qrCodeData = [],
                     status = PendingPayment, scannedAt = None, deliveredAt = None,
                     createdAt = now e\<rparr>
          in (case Order_create e st doc of
                Inl err \<Rightarrow> Inl err
              | Inr st' \<Rightarrow>
                  Inr (st', \<lparr>r_razorpayOrderId = rid, r_orderId = length (orders st),
                             r_amount = razorpayAmount,
                             r_data = orders st' ! length (orders st)\<rparr>)))"

subsection \<open>POST /api/orders/verify\<close>

text \<open>The stock loops of verify (\<open>sign = -1\<close>) and cancel (\<open>sign = 1\<close>).\<close>

fun adjust_stock :: "int \<Rightarrow> order_item list \<Rightarrow> state \<Rightarrow> state" where
  "adjust_stock sign [] st = st"
| "adjust_stock sign (item # rest) st =
     adjust_stock sign rest (Menu_inc_stockCount st (menuItem item) (sign * quantity item))"

text \<open>\<open>const isSignatureValid = true;\<close> (the source's temporary bypass).\<close>

definition isSignatureValid :: "string \<Rightarrow> string \<Rightarrow> string \<Rightarrow> bool" where
  "isSignatureValid razorpay_order_id razorpay_payment_id razorpay_signature = True"

definition verify :: "env \<Rightarrow> string \<Rightarrow> string \<Rightarrow> string \<Rightarrow> state \<Rightarrow> error + (state \<times> string)" where
  "verify e razorpay_order_id razorpay_payment_id razorpay_signature st =
     (if \<not> isSignatureValid razorpay_order_id razorpay_payment_id razorpay_signature
      then Inl PaymentVerificationFailed
      else case Order_findOne st (\<lambda>doc. razorpayOrderId doc = razorpay_order_id) of
        None \<Rightarrow> Inl OrderNotFound
      | Some i \<Rightarrow>
          let order = orders st ! i;
              st1 = adjust_stock (- 1) (items order) st;
              order' = order\<lparr>paymentStatus := Completed, status := Active\<rparr>;
              st2 = Order_save e st1 i order'
          in Inr (st2, qrCodeData (orders st2 ! i)))"

subsection \<open>PATCH /api/orders/scan/:qrData\<close>

definition scan :: "env \<Rightarrow> string \<Rightarrow> state \<Rightarrow> error + (state \<times> Order)" where
  "scan e qrData st =
     (case Order_findOne st (\<lambda>doc. qrCodeData doc = qrData) of
        None \<Rightarrow> Inl InvalidQRCode
      | Some i \<Rightarrow>
          let order = orders st ! i in
          if status order \<noteq> Active then Inl (OrderIs (status order))
          else
            let order' = order\<lparr>status := Scanned, scannedAt := Some (now e)\<rparr>;
                st' = Order_save e st i order'
            in Inr (st', orders st' ! i))"

subsection \<open>PATCH /api/orders/:id/deliver\<close>

definition deliver :: "env \<Rightarrow> nat \<Rightarrow> state \<Rightarrow> error + (state \<times> Order)" where
  "deliver e oid st =
     (case Order_findById st oid of
        None \<Rightarrow> Inl OrderNotFound
      | Some order \<Rightarrow>
          if status order \<noteq> Scanned then Inl MustScanBeforeDelivery
          else
            let order' = order\<lparr>status := Delivered, deliveredAt := Some (now e)\<rparr>;
                st' = Order_save e st oid order'
            in Inr (st', orders st' ! oid))"

subsection \<open>PATCH /api/orders/:id/cancel\<close>

definition cancel :: "env \<Rightarrow> nat \<Rightarrow> state \<Rightarrow> error + (state \<times> Order)" where
  "cancel e oid st =
     (case Order_findById st oid of
        None \<Rightarrow> Inl OrderNotFound
      | Some order \<Rightarrow>
          if status order = Delivered \<or> status order = Scanned then Inl CannotCancel
          else
            let st1 = adjust_stock 1 (items order) st;
                order' = order\<lparr>status := Cancelled\<rparr>;
                st' = Order_save e st1 oid order'
            in Inr (st', orders st' ! oid))"

subsection \<open>Sequences of requests\<close>

datatype request =
    Checkout nat "req_item list"
  | VerifyPayment string string string
  | Scan string
  | Deliver nat
  | Cancel nat

text \<open>The database after a request: an error response leaves it as it was.\<close>

definition after :: "error + (state \<times> 'a) \<Rightarrow> state \<Rightarrow> state" where
  "after r st = (case r of Inl err \<Rightarrow> st | Inr (st', x) \<Rightarrow> st')"

fun step :: "state \<Rightarrow> env \<times> request \<Rightarrow> state" where
  "step st (e, Checkout user reqItems) = after (checkout e user reqItems st) st"
| "step st (e, VerifyPayment rid pid sig) = after (verify e rid pid sig st) st"
| "step st (e, Scan qrData) = after (scan e qrData st) st"
| "step st (e, Deliver oid) = after (deliver e oid st) st"
| "step st (e, Cancel oid) = after (cancel e oid st) st"

definition run :: "state \<Rightarrow> (env \<times> request) list \<Rightarrow> state" where
  "run st rs = foldl step st rs"

section \<open>Predicates of the specification\<close>

text \<open>A line item is the snapshot of a requested line: name and price as the catalog has them.\<close>

definition snapshot_of :: "state \<Rightarrow> req_item \<Rightarrow> order_item \<Rightarrow> bool" where
  "snapshot_of st r i =
     (case menus st (req_menuItem r) of
        None \<Rightarrow> False
      | Some m \<Rightarrow>
          menuItem i = req_menuItem r \<and> oi_itemName i = itemName m \<and>
          quantity i = req_quantity r \<and> oi_price i = price m)"

text \<open>The sum over the line items of quantity times unit price.\<close>

definition line_total :: "order_item list \<Rightarrow> int" where
  "line_total its = sum_list (map (\<lambda>i. quantity i * oi_price i) its)"






definition succeeds :: "error + 'a \<Rightarrow> bool" where
  "succeeds r = (case r of Inl err \<Rightarrow> False | Inr x \<Rightarrow> True)"

text \<open>The transitions of the lifecycle state machine (or no change).\<close>

fun transition_ok :: "order_status \<Rightarrow> order_status \<Rightarrow> bool" where
  "transition_ok PendingPayment Active = True"
| "transition_ok Active Scanned = True"
| "transition_ok Scanned Delivered = True"
| "transition_ok PendingPayment Cancelled = True"
| "transition_ok Active Cancelled = True"
| "transition_ok s s' = (s = s')"




text \<open>
  The order fields that neither scan nor deliver may touch: all but \<open>status\<close>,
  \<open>scannedAt\<close> and \<open>deliveredAt\<close>.
\<close>

definition same_other_fields :: "Order \<Rightarrow> Order \<Rightarrow> bool" where
  "same_other_fields a b =
     (studentId a = studentId b \<and> items a = items b \<and> totalAmount a = totalAmount b \<and>
      razorpayOrderId a = razorpayOrderId b \<and> paymentStatus a = paymentStatus b \<and>
      qrCodeData a = qrCodeData b \<and> createdAt a = createdAt b)"

section \<open>The scenario of the specification\<close>

text \<open>ItemA (stock 5, price 10) and ItemB (stock 1, price 20); a cart of 2 x ItemA + 1 x ItemB.\<close>

definition itemA :: Menu where
  "itemA = \<lparr>itemName = ''ItemA'', price = 10, stockCount = 5, imageURL = [],
     category = ''lunch'', isAvailable = True, description = [], m_createdAt = 0, updatedAt = 0\<rparr>"

definition itemB :: Menu where
  "itemB = \<lparr>itemName = ''ItemB'', price = 20, stockCount = 1, imageURL = [],
     category = ''snacks'', isAvailable = True, description = [], m_createdAt = 0, updatedAt = 0\<rparr>"

definition canteen :: state where
  "canteen = \<lparr>orders = [], menus = [1 \<mapsto> itemA, 2 \<mapsto> itemB]\<rparr>"

definition at :: "nat \<Rightarrow> env" where
  "at t = \<lparr>now = t, randomHex = ''00112233aabbccdd'', razorpay = NotInitialised\<rparr>"

definition cart :: "req_item list" where
  "cart = [\<lparr>req_menuItem = 1, req_quantity = 2\<rparr>, \<lparr>req_menuItem = 2, req_quantity = 1\<rparr>]"

definition cartB :: "req_item list" where
  "cartB = [\<lparr>req_menuItem = 2, req_quantity = 1\<rparr>]"




text \<open>The cart checked out at time 7 and paid at time 8, and the token issued for it.\<close>

definition pay_at :: "nat \<Rightarrow> env \<times> request" where
  "pay_at t = (at t, VerifyPayment ''mock_order_7'' ''pay_1'' ''signature'')"

definition pay :: "env \<times> request" where
  "pay = pay_at 8"

definition paid :: state where
  "paid = run canteen [(at 7, Checkout 9 cart), pay]"

definition token :: string where
  "token = ''ORD-8-00112233aabbccdd''"

section \<open>How the store operations and the routes change the database\<close>

lemma orders_Menu_inc [simp]: "orders (Menu_inc_stockCount st k d) = orders st"
  by (simp add: Menu_inc_stockCount_def split: option.splits)

lemma orders_adjust_stock [simp]: "orders (adjust_stock s its st) = orders st"
  by (induction its arbitrary: st) auto

lemma findOne_index_Some:
  "findOne_index P xs = Some i \<Longrightarrow> i < length xs \<and> P (xs ! i)"
  by (induction xs arbitrary: i) (auto split: if_splits)

lemma findOne_index_first:
  "findOne_index P xs = Some i \<Longrightarrow> j < i \<Longrightarrow> \<not> P (xs ! j)"
proof (induction xs arbitrary: i j)
  case Nil
  then show ?case by simp
next
  case (Cons x xs)
  then show ?case by (cases j) (auto split: if_splits)
qed

lemma findOne_index_None: "findOne_index P xs = None \<longleftrightarrow> (\<forall>x\<in>set xs. \<not> P x)"
  by (induction xs) auto

lemma checkout_loop_Inr:
  "checkout_loop st req tot acc = Inr (t, its) \<Longrightarrow>
   \<exists>new. its = acc @ new \<and> list_all2 (snapshot_of st) req new \<and> t = tot + line_total new"
proof (induction req arbitrary: tot acc)
  case Nil
  then show ?case by (simp add: line_total_def)
next
  case (Cons r req)
  from Cons.prems obtain m where m: "menus st (req_menuItem r) = Some m"
    and ok: "\<not> stockCount m < req_quantity r"
    and rest: "checkout_loop st req (tot + price m * req_quantity r)
        (acc @ [\<lparr>menuItem = req_menuItem r, oi_itemName = itemName m,
                 quantity = req_quantity r, oi_price = price m\<rparr>]) = Inr (t, its)"
    by (auto simp: Menu_findById_def split: option.splits if_splits)
  from Cons.IH [OF rest] obtain new where
    "its = (acc @ [\<lparr>menuItem = req_menuItem r, oi_itemName = itemName m,
                 quantity = req_quantity r, oi_price = price m\<rparr>]) @ new"
    "list_all2 (snapshot_of st) req new"
    "t = tot + price m * req_quantity r + line_total new" by blast
  moreover from m have "snapshot_of st r \<lparr>menuItem = req_menuItem r, oi_itemName = itemName m,
                 quantity = req_quantity r, oi_price = price m\<rparr>"
    by (simp add: snapshot_of_def)
  ultimately show ?case
    by (intro exI [of _ "\<lparr>menuItem = req_menuItem r, oi_itemName = itemName m,
                 quantity = req_quantity r, oi_price = price m\<rparr> # new"])
       (simp add: line_total_def mult.commute)
qed

lemma checkout_Inr:
  assumes "checkout e user reqItems st = Inr (st', resp)"
  shows "menus st' = menus st \<and> orders st' = orders st @ [r_data resp] \<and>
         r_orderId resp = length (orders st) \<and>
         list_all2 (snapshot_of st) reqItems (items (r_data resp)) \<and>
         totalAmount (r_data resp) = line_total (items (r_data resp)) \<and>
         qrCodeData (r_data resp) = [] \<and> status (r_data resp) = PendingPayment"
proof -
  from assms obtain t its where loop: "checkout_loop st reqItems 0 [] = Inr (t, its)"
    by (auto simp: checkout_def split: if_splits sum.splits)
  from checkout_loop_Inr [OF loop] have its: "list_all2 (snapshot_of st) reqItems its"
    and t: "t = line_total its" by auto
  from assms loop show ?thesis using its t
    by (auto simp: checkout_def Order_create_def order_pre_save_def Let_def
             split: if_splits sum.splits)
qed


lemma verify_Inr:
  assumes "verify e rid pid sg st = Inr (st', q)"
  shows "\<exists>i<length (orders st). razorpayOrderId (orders st ! i) = rid \<and>
           orders st' = (orders st)[i := order_pre_save e
              ((orders st ! i)\<lparr>paymentStatus := Completed, status := Active\<rparr>)]"
proof -
  from assms obtain i where i: "findOne_index (\<lambda>doc. razorpayOrderId doc = rid) (orders st) = Some i"
    by (auto simp: verify_def Order_findOne_def split: if_splits option.splits)
  with assms have "orders st' = (orders st)[i := order_pre_save e
              ((orders st ! i)\<lparr>paymentStatus := Completed, status := Active\<rparr>)]"
    by (auto simp: verify_def Order_findOne_def Order_save_def Let_def split: if_splits)
  with findOne_index_Some [OF i] show ?thesis by blast
qed

lemma scan_Inr:
  assumes "scan e q st = Inr (st', d)"
  shows "\<exists>i<length (orders st). qrCodeData (orders st ! i) = q \<and> status (orders st ! i) = Active \<and>
           d = (orders st ! i)\<lparr>status := Scanned, scannedAt := Some (now e)\<rparr> \<and>
           st' = st\<lparr>orders := (orders st)[i := d]\<rparr>"
proof -
  from assms obtain i where i: "findOne_index (\<lambda>doc. qrCodeData doc = q) (orders st) = Some i"
    by (auto simp: scan_def Order_findOne_def split: option.splits)
  from findOne_index_Some [OF i] have len: "i < length (orders st)"
    and tok: "qrCodeData (orders st ! i) = q" by auto
  from assms i have act: "status (orders st ! i) = Active"
    by (auto simp: scan_def Order_findOne_def Let_def split: if_splits)
  from assms i act len have "d = (orders st ! i)\<lparr>status := Scanned, scannedAt := Some (now e)\<rparr> \<and>
           st' = st\<lparr>orders := (orders st)[i := d]\<rparr>"
    by (auto simp: scan_def Order_findOne_def Order_save_def order_pre_save_def Let_def)
  with len tok act show ?thesis by blast
qed

lemma deliver_Inr:
  assumes "deliver e oid st = Inr (st', d)"
  shows "oid < length (orders st) \<and> status (orders st ! oid) = Scanned \<and>
         d = (orders st ! oid)\<lparr>status := Delivered, deliveredAt := Some (now e)\<rparr> \<and>
         st' = st\<lparr>orders := (orders st)[oid := d]\<rparr>"
  using assms
  by (auto simp: deliver_def Order_findById_def Order_save_def order_pre_save_def Let_def
           split: if_splits)

lemma cancel_Inr:
  assumes "cancel e oid st = Inr (st', d)"
  shows "oid < length (orders st) \<and> status (orders st ! oid) \<noteq> Delivered \<and>
         status (orders st ! oid) \<noteq> Scanned \<and>
         d = (orders st ! oid)\<lparr>status := Cancelled\<rparr> \<and>
         st' = (adjust_stock 1 (items (orders st ! oid)) st)\<lparr>orders := (orders st)[oid := d]\<rparr>"
  using assms
  by (auto simp: cancel_def Order_findById_def Order_save_def order_pre_save_def Let_def
           split: if_splits)


lemma order_pre_save_fields [simp]:
  "items (order_pre_save e d) = items d" "totalAmount (order_pre_save e d) = totalAmount d"
  by (simp_all add: order_pre_save_def)



section \<open>Checkout: the total and the line items\<close>





text \<open>A quantity of zero passes the stock check and fails the schema's \<open>min: 1\<close>.\<close>

lemma checkout_zero_quantity:
  "checkout (at 7) 9 [\<lparr>req_menuItem = 1, req_quantity = 0\<rparr>] canteen = Inl ValidationError"
  by (simp add: checkout_def canteen_def itemA_def Menu_findById_def Order_create_def
      order_valid_def order_item_valid_def Let_def)



section \<open>Scan and deliver\<close>

text \<open>
  C10. A successful Scan changes only the matched order's status and scannedAt, and a
  successful Deliver changes only the order's status and deliveredAt: the other fields
  of that order (studentId, items, totalAmount, razorpayOrderId, paymentStatus,
  qrCodeData, createdAt), every other order and the whole menu collection (so every
  stockCount) are as before.
\<close>

theorem scan_deliver_frame:
  "(scan e qrData st = Inr (st', doc) \<longrightarrow>
      menus st' = menus st \<and>
      (\<exists>i<length (orders st).
         orders st' = (orders st)[i := doc] \<and>
         doc = (orders st ! i)\<lparr>status := Scanned, scannedAt := Some (now e)\<rparr> \<and>
         same_other_fields doc (orders st ! i) \<and>
         deliveredAt doc = deliveredAt (orders st ! i))) \<and>
   (deliver e oid st = Inr (st', doc) \<longrightarrow>
      menus st' = menus st \<and> oid < length (orders st) \<and>
      orders st' = (orders st)[oid := doc] \<and>
      doc = (orders st ! oid)\<lparr>status := Delivered, deliveredAt := Some (now e)\<rparr> \<and>
      same_other_fields doc (orders st ! oid) \<and>
      scannedAt doc = scannedAt (orders st ! oid))"
proof (intro conjI impI)
  assume "scan e qrData st = Inr (st', doc)"
  from scan_Inr [OF this] obtain i where i: "i < length (orders st)"
    and d: "doc = (orders st ! i)\<lparr>status := Scanned, scannedAt := Some (now e)\<rparr>"
    and st': "st' = st\<lparr>orders := (orders st)[i := doc]\<rparr>" by blast
  from st' show "menus st' = menus st" by simp
  from d have "same_other_fields doc (orders st ! i)" "deliveredAt doc = deliveredAt (orders st ! i)"
    by (simp_all add: same_other_fields_def)
  with i d st' show "\<exists>i<length (orders st).
         orders st' = (orders st)[i := doc] \<and>
         doc = (orders st ! i)\<lparr>status := Scanned, scannedAt := Some (now e)\<rparr> \<and>
         same_other_fields doc (orders st ! i) \<and>
         deliveredAt doc = deliveredAt (orders st ! i)"
    by (intro exI [of _ i]) simp
next
  assume "deliver e oid st = Inr (st', doc)"
  from deliver_Inr [OF this] have i: "oid < length (orders st)"
    and d: "doc = (orders st ! oid)\<lparr>status := Delivered, deliveredAt := Some (now e)\<rparr>"
    and st': "st' = st\<lparr>orders := (orders st)[oid := doc]\<rparr>" by auto
  from st' show "menus st' = menus st" by simp
  from i show "oid < length (orders st)" .
  from st' show "orders st' = (orders st)[oid := doc]" by simp
  from d show "doc = (orders st ! oid)\<lparr>status := Delivered, deliveredAt := Some (now e)\<rparr>" .
  from d show "same_other_fields doc (orders st ! oid)" by (simp add: same_other_fields_def)
  from d show "scannedAt doc = scannedAt (orders st ! oid)" by simp
qed

theorem scan_deliver_frame_witness:
  "(\<exists>st' doc. scan (at 9) token paid = Inr (st', doc) \<and> menus st' = menus paid \<and>
      orders st' = (orders paid)[0 := doc] \<and> same_other_fields doc (orders paid ! 0)) \<and>
   (\<exists>st' doc. deliver (at 10) 0 (run paid [(at 9, Scan token)]) = Inr (st', doc) \<and>
      menus st' = menus (run paid [(at 9, Scan token)]) \<and>
      same_other_fields doc (orders (run paid [(at 9, Scan token)]) ! 0))"
proof -
  have "succeeds (scan (at 9) token paid)" by code_simp
  then obtain st1 d1 where s: "scan (at 9) token paid = Inr (st1, d1)"
    by (auto simp: succeeds_def split: sum.splits)
  have one: "length (orders paid) = 1" by code_simp
  from scan_deliver_frame [of "at 9" token paid st1 d1] s one
  have "menus st1 = menus paid \<and> orders st1 = (orders paid)[0 := d1] \<and>
        same_other_fields d1 (orders paid ! 0)" by auto
  with s have first: "\<exists>st' doc. scan (at 9) token paid = Inr (st', doc) \<and> menus st' = menus paid \<and>
      orders st' = (orders paid)[0 := doc] \<and> same_other_fields doc (orders paid ! 0)" by blast
  have "succeeds (deliver (at 10) 0 (run paid [(at 9, Scan token)]))" by code_simp
  then obtain st2 d2 where d: "deliver (at 10) 0 (run paid [(at 9, Scan token)]) = Inr (st2, d2)"
    by (auto simp: succeeds_def split: sum.splits)
  from scan_deliver_frame [of "at 10" _ "run paid [(at 9, Scan token)]" st2 d2 0] d
  have "menus st2 = menus (run paid [(at 9, Scan token)]) \<and>
      same_other_fields d2 (orders (run paid [(at 9, Scan token)]) ! 0)" by blast
  with d first show ?thesis by blast
qed

section \<open>The lifecycle state machine\<close>

text \<open>Checkout, scan, deliver and cancel move an order along the defined transitions only.\<close>

lemma lifecycle_without_verify:
  assumes "i < length (orders st)" and "\<And>rid pid sg. r \<noteq> VerifyPayment rid pid sg"
  shows "transition_ok (status (orders st ! i)) (status (orders (step st (e, r)) ! i))"
proof (cases r)
  case (Checkout user reqItems)
  show ?thesis
  proof (cases "checkout e user reqItems st")
    case (Inl err)
    with Checkout show ?thesis by (cases "status (orders st ! i)") (simp_all add: after_def)
  next
    case (Inr p)
    obtain st' resp where p: "p = (st', resp)" by (cases p)
    from checkout_Inr [OF Inr [unfolded p]] Checkout Inr p assms(1) show ?thesis
      by (cases "status (orders st ! i)") (simp_all add: after_def nth_append)
  qed
next
  case (VerifyPayment rid pid sg)
  with assms(2) show ?thesis by blast
next
  case (Scan q)
  show ?thesis
  proof (cases "scan e q st")
    case (Inl err)
    with Scan show ?thesis by (cases "status (orders st ! i)") (simp_all add: after_def)
  next
    case (Inr p)
    obtain st' d where p: "p = (st', d)" by (cases p)
    from scan_Inr [OF Inr [unfolded p]] Scan Inr p assms(1) show ?thesis
      by (cases "status (orders st ! i)") (auto simp: after_def nth_list_update)
  qed
next
  case (Deliver oid)
  show ?thesis
  proof (cases "deliver e oid st")
    case (Inl err)
    with Deliver show ?thesis by (cases "status (orders st ! i)") (simp_all add: after_def)
  next
    case (Inr p)
    obtain st' d where p: "p = (st', d)" by (cases p)
    from deliver_Inr [OF Inr [unfolded p]] Deliver Inr p assms(1) show ?thesis
      by (cases "status (orders st ! i)") (auto simp: after_def nth_list_update)
  qed
next
  case (Cancel oid)
  show ?thesis
  proof (cases "cancel e oid st")
    case (Inl err)
    with Cancel show ?thesis by (cases "status (orders st ! i)") (simp_all add: after_def)
  next
    case (Inr p)
    obtain st' d where p: "p = (st', d)" by (cases p)
    from cancel_Inr [OF Inr [unfolded p]] Cancel Inr p assms(1) show ?thesis
      by (cases "status (orders st ! i)") (auto simp: after_def nth_list_update)
  qed
qed

text \<open>
  The verify route has no check of the order's status: whatever it was, the order found
  by its gateway id becomes active.
\<close>

lemma verify_activates:
  assumes "verify e rid pid sg st = Inr (st', q)"
  shows "\<exists>i<length (orders st). razorpayOrderId (orders st ! i) = rid \<and>
           status (orders st' ! i) = Active"
proof -
  from verify_Inr [OF assms] obtain i where "i < length (orders st)"
    "razorpayOrderId (orders st ! i) = rid"
    "orders st' = (orders st)[i := order_pre_save e
              ((orders st ! i)\<lparr>paymentStatus := Completed, status := Active\<rparr>)]" by blast
  then show ?thesis by (intro exI [of _ i]) (simp add: order_pre_save_def)
qed

text \<open>
  C1. The lifecycle state only changes along the defined transitions; no step moves an
  order out of cancelled, scanned or delivered except the forward one. The verify route
  breaks it: a cancelled order and a delivered order both become active again when the
  payment of the order is verified (again).
\<close>

theorem verify_reopens_closed_orders:
  "map status (orders (run canteen [(at 7, Checkout 9 cart), (at 8, Cancel 0)])) = [Cancelled] \<and>
   map status (orders (run canteen [(at 7, Checkout 9 cart), (at 8, Cancel 0), pay_at 9])) = [Active] \<and>
   map status (orders (run paid [(at 9, Scan token), (at 10, Deliver 0)])) = [Delivered] \<and>
   map status (orders (run paid [(at 9, Scan token), (at 10, Deliver 0), pay_at 11])) = [Active]"
  by code_simp

section \<open>Stock\<close>

text \<open>
  C2. stockCount stays non-negative under every sequence of operations. The verify route
  decrements without a check: two orders for the last ItemB, both checked out while the
  stock is 1 and both verified, leave its stockCount at -1.
\<close>

theorem stock_goes_negative:
  "map_option stockCount (menus canteen 2) = Some 1 \<and>
   map_option stockCount
     (menus (run canteen
        [(at 7, Checkout 9 cartB), (at 8, Checkout 10 cartB),
         (at 9, VerifyPayment ''mock_order_7'' ''pay_1'' ''signature''),
         (at 10, VerifyPayment ''mock_order_8'' ''pay_2'' ''signature'')]) 2) = Some (- 1)"
  by code_simp

text \<open>
  C6. Cancel of an order still in pending_payment leaves every stockCount unchanged. The
  cancel route increments for every line item whatever the status: cancelling the unpaid
  cart (2 x ItemA) raises ItemA's stockCount from 5 to 7.
\<close>

theorem cancel_pending_inflates_stock:
  "map_option stockCount (menus canteen 1) = Some 5 \<and>
   map status (orders (run canteen [(at 7, Checkout 9 cart)])) = [PendingPayment] \<and>
   map_option stockCount (menus (run canteen [(at 7, Checkout 9 cart)]) 1) = Some 5 \<and>
   map_option stockCount (menus (run canteen [(at 7, Checkout 9 cart), (at 8, Cancel 0)]) 1) = Some 7"
  by code_simp

text \<open>The save hook of the menu schema computes isAvailable from stockCount.\<close>

lemma menu_pre_save_isAvailable: "isAvailable (menu_pre_save e m) = (0 < stockCount m)"
  by (simp add: menu_pre_save_def)

lemma canteen_created:
  "Menu_create (at 0) 2 itemB \<lparr>orders = [], menus = [1 \<mapsto> itemA]\<rparr> = Inr canteen"
  by (simp add: Menu_create_def menu_valid_def menu_categories_def menu_pre_save_def itemB_def
      canteen_def at_def)

text \<open>
  C9. isAvailable always equals stockCount > 0. The stock updates of verify and cancel go
  through findByIdAndUpdate, which runs no save hook: after the paid cart took the last
  ItemB its stockCount is 0 and isAvailable is still true.
\<close>

theorem isAvailable_stale_after_verify:
  "map_option (\<lambda>m. (stockCount m, isAvailable m)) (menus canteen 2) = Some (1, True) \<and>
   map_option (\<lambda>m. (stockCount m, isAvailable m)) (menus paid 2) = Some (0, True)"
  by code_simp

section \<open>Payment verification\<close>

text \<open>The proof of payment is never read: verify never answers that verification failed.\<close>

lemma verify_ignores_proof:
  "verify e rid pid sg st = verify e rid pid' sg' st \<and>
   verify e rid pid sg st \<noteq> Inl PaymentVerificationFailed"
  by (simp add: verify_def isSignatureValid_def Let_def split: option.splits)

text \<open>
  C3. VerifyPayment checks the proof with an HMAC-style signature over the order and
  payment identifiers and fails with PaymentVerificationFailed on an invalid proof. The
  source sets isSignatureValid to true: an empty signature (no HMAC digest is empty) with
  a made-up payment id activates the order and commits the stock.
\<close>

theorem verify_accepts_forged_proof:
  "succeeds (verify (at 8) ''mock_order_7'' ''forged'' [] (run canteen [(at 7, Checkout 9 cart)])) \<and>
   map status (orders (run canteen
      [(at 7, Checkout 9 cart), (at 8, VerifyPayment ''mock_order_7'' ''forged'' [])])) = [Active] \<and>
   map paymentStatus (orders (run canteen
      [(at 7, Checkout 9 cart), (at 8, VerifyPayment ''mock_order_7'' ''forged'' [])])) = [Completed] \<and>
   map_option stockCount (menus (run canteen
      [(at 7, Checkout 9 cart), (at 8, VerifyPayment ''mock_order_7'' ''forged'' [])]) 1) = Some 3"
  by code_simp

section \<open>Scanning a token\<close>

lemma findOne_index_update:
  "findOne_index P xs = Some i \<Longrightarrow> P y \<Longrightarrow> findOne_index P (xs[i := y]) = Some i"
proof (induction xs arbitrary: i)
  case Nil
  then show ?case by simp
next
  case (Cons x xs)
  then show ?case by (cases i) (auto split: if_splits)
qed

text \<open>No order carries the token: 404, invalid QR code.\<close>

lemma scan_not_found:
  "(\<forall>doc\<in>set (orders st). qrCodeData doc \<noteq> qrData) \<longleftrightarrow> scan e qrData st = Inl InvalidQRCode"
proof -
  have "findOne_index (\<lambda>doc. qrCodeData doc = qrData) (orders st) = None
        \<longleftrightarrow> scan e qrData st = Inl InvalidQRCode"
    by (auto simp: scan_def Order_findOne_def Let_def split: option.splits)
  then show ?thesis by (simp add: findOne_index_None)
qed

text \<open>An order that is not active is not scanned, and the message names its status.\<close>

lemma scan_wrong_state:
  assumes "findOne_index (\<lambda>doc. qrCodeData doc = qrData) (orders st) = Some i"
    and "status (orders st ! i) \<noteq> Active"
  shows "scan e qrData st = Inl (OrderIs (status (orders st ! i))) \<and>
         message (OrderIs (status (orders st ! i))) = ''Order is '' @ status_string (status (orders st ! i))"
  using assms by (simp add: scan_def Order_findOne_def)

text \<open>Scanning the same token again right after a successful scan fails: the order is scanned.\<close>

lemma scan_again_fails:
  assumes "scan e qrData st = Inr (st', doc)"
  shows "scan e' qrData st' = Inl (OrderIs Scanned)"
proof -
  from assms obtain i where i: "findOne_index (\<lambda>doc. qrCodeData doc = qrData) (orders st) = Some i"
    by (auto simp: scan_def Order_findOne_def split: option.splits)
  from findOne_index_Some [OF i] have tok: "qrCodeData (orders st ! i) = qrData"
    and len: "i < length (orders st)" by auto
  from assms i have act: "status (orders st ! i) = Active"
    by (auto simp: scan_def Order_findOne_def Let_def split: if_splits)
  let ?d = "(orders st ! i)\<lparr>status := Scanned, scannedAt := Some (now e)\<rparr>"
  from assms i act have st': "orders st' = (orders st)[i := ?d]"
    by (auto simp: scan_def Order_findOne_def Order_save_def order_pre_save_def Let_def)
  from tok have "qrCodeData ?d = qrData" by simp
  from findOne_index_update [OF i, of ?d] this
  have "findOne_index (\<lambda>doc. qrCodeData doc = qrData) (orders st') = Some i"
    by (simp add: st')
  moreover from len have "status (orders st' ! i) = Scanned" by (simp add: st')
  ultimately show ?thesis by (simp add: scan_def Order_findOne_def)
qed

text \<open>
  C5. After a first successful Scan of a token, every later Scan of the same token fails
  with InvalidState. A later scan succeeds again once the verify route, which checks no
  status, has put the scanned order back to active: the token of the paid cart is
  scanned at time 9, its payment is verified once more at time 10, and the scan at time
  11 succeeds.
\<close>

theorem scan_succeeds_twice:
  "succeeds (scan (at 9) token paid) \<and>
   map status (orders (run paid [(at 9, Scan token)])) = [Scanned] \<and>
   map status (orders (run paid [(at 9, Scan token), pay_at 10])) = [Active] \<and>
   succeeds (scan (at 11) token (run paid [(at 9, Scan token), pay_at 10])) \<and>
   map qrCodeData (orders (run paid [(at 9, Scan token), pay_at 10])) = [token]"
  by code_simp

section \<open>Checkout of more than the stock\<close>








section \<open>The redemption token\<close>

lemma qr_token_not_empty [simp]: "qr_token t r \<noteq> []"
  by (simp add: qr_token_def)








section \<open>The scenario of the specification, end to end\<close>

lemma scenario_checkout:
  "map totalAmount (orders (run canteen [(at 7, Checkout 9 cart)])) = [40] \<and>
   map status (orders (run canteen [(at 7, Checkout 9 cart)])) = [PendingPayment]"
  by code_simp

lemma scenario_paid:
  "map_option stockCount (menus paid 1) = Some 3 \<and> map_option stockCount (menus paid 2) = Some 0 \<and>
   map status (orders paid) = [Active] \<and> map qrCodeData (orders paid) = [token]"
  by code_simp

lemma scenario_served:
  "map status (orders (run paid [(at 9, Scan token)])) = [Scanned] \<and>
   map status (orders (run paid [(at 9, Scan token), (at 10, Deliver 0)])) = [Delivered] \<and>
   map_sum id (\<lambda>p. ()) (cancel (at 11) 0 (run paid [(at 9, Scan token), (at 10, Deliver 0)])) =
     Inl CannotCancel"
  by code_simp

end
